theory Spec2Isabelle
  imports Complex_Main
begin

section \<open>Documents and chunks\<close>

text \<open>
  A LangChain document as the code uses it: the text (\<open>page_content\<close>) and the
  \<open>source\<close> entry of its metadata, absent when the metadata has no such key.
\<close>

record doc =
  page_content :: string
  source :: "string option"

section \<open>Token batcher (backend/embeddings/test.py, create\_batches)\<close>

text \<open>
  \<open>count_tokens\<close> calls the external tokenizer and takes the length of its
  output, so it is a parameter \<open>tok\<close> with natural-number results. The limit
  \<open>max_tokens_per_batch\<close> is a Python integer. The loop state is the triple
  (batches, current\_batch, current\_tokens) of the source.
\<close>

type_synonym batch_state = "doc list list \<times> doc list \<times> int"

definition batch_step :: "(string \<Rightarrow> nat) \<Rightarrow> int \<Rightarrow> batch_state \<Rightarrow> doc \<Rightarrow> batch_state" where
  "batch_step tok max_tokens_per_batch st d =
     (case st of (batches, current_batch, current_tokens) \<Rightarrow>
        (let doc_tokens = int (tok (page_content d)) in
         if current_tokens + doc_tokens > max_tokens_per_batch \<and> current_batch \<noteq> []
         then (batches @ [current_batch], [d], doc_tokens)
         else (batches, current_batch @ [d], current_tokens + doc_tokens)))"

definition create_batches :: "(string \<Rightarrow> nat) \<Rightarrow> doc list \<Rightarrow> int \<Rightarrow> doc list list" where
  "create_batches tok docs max_tokens_per_batch =
     (case foldl (batch_step tok max_tokens_per_batch) ([], [], 0) docs of
        (batches, current_batch, current_tokens) \<Rightarrow>
          if current_batch \<noteq> [] then batches @ [current_batch] else batches)"

text \<open>The token sum of a batch, as the diagnostics of the source print it.\<close>

definition batch_tokens :: "(string \<Rightarrow> nat) \<Rightarrow> doc list \<Rightarrow> int" where
  "batch_tokens tok b = (\<Sum>d\<leftarrow>b. int (tok (page_content d)))"

text \<open>A batch is acceptable when it is within the limit or is one chunk that alone exceeds it.\<close>

definition batch_ok :: "(string \<Rightarrow> nat) \<Rightarrow> int \<Rightarrow> doc list \<Rightarrow> bool" where
  "batch_ok tok m b \<longleftrightarrow>
     batch_tokens tok b \<le> m \<or> (length b = 1 \<and> batch_tokens tok b > m)"

definition batch_inv :: "(string \<Rightarrow> nat) \<Rightarrow> int \<Rightarrow> batch_state \<Rightarrow> bool" where
  "batch_inv tok m st \<longleftrightarrow>
     (case st of (batches, cur, t) \<Rightarrow>
        list_all (batch_ok tok m) batches \<and> t = batch_tokens tok cur \<and>
        (cur = [] \<or> batch_ok tok m cur))"

definition batch_flat :: "batch_state \<Rightarrow> doc list" where
  "batch_flat st = (case st of (batches, cur, t) \<Rightarrow> concat batches @ cur)"

section \<open>Python strings and exceptions\<close>

text \<open>
  \<open>str.lower\<close> on the ASCII letters, \<open>str.startswith\<close>, \<open>str.endswith\<close>, the
  substring test \<open>p in s\<close> and the decimal rendering of a non-negative integer in
  an f-string.
\<close>

definition lower_char :: "char \<Rightarrow> char" where
  "lower_char c =
     (case map_of (zip ''ABCDEFGHIJKLMNOPQRSTUVWXYZ'' ''abcdefghijklmnopqrstuvwxyz'') c of
        Some l \<Rightarrow> l
      | None \<Rightarrow> c)"

definition lower :: "string \<Rightarrow> string" where
  "lower s = map lower_char s"

fun startswith :: "string \<Rightarrow> string \<Rightarrow> bool" where
  "startswith s [] = True"
| "startswith [] (p # ps) = False"
| "startswith (c # s) (p # ps) = (c = p \<and> startswith s ps)"

definition endswith :: "string \<Rightarrow> string \<Rightarrow> bool" where
  "endswith s p = startswith (rev s) (rev p)"

fun str_contains :: "string \<Rightarrow> string \<Rightarrow> bool" where
  "str_contains [] p = (p = [])"
| "str_contains (c # s) p = (startswith (c # s) p \<or> str_contains s p)"

definition digit_char :: "nat \<Rightarrow> char" where
  "digit_char n = ''0123456789'' ! n"

fun str_nat :: "nat \<Rightarrow> string" where
  "str_nat n =
     (if n < 10 then [digit_char n] else str_nat (n div 10) @ [digit_char (n mod 10)])"

text \<open>
  The exceptions the modelled code raises or catches. \<open>py_str\<close> is \<open>str(e)\<close>:
  the message of a plain exception, the quoted key of a \<open>KeyError\<close>, the empty
  string of an argument-less \<open>asyncio.TimeoutError\<close>, and \<open>status: detail\<close> for
  the web framework's \<open>HTTPException\<close>.
\<close>

datatype py_error =
    Exception string
  | ValueError string
  | KeyError string
  | IndexError
  | TimeoutError
  | HTTPException nat string

fun py_str :: "py_error \<Rightarrow> string" where
  "py_str (Exception m) = m"
| "py_str (ValueError m) = m"
| "py_str (KeyError k) = [CHR 0x27] @ k @ [CHR 0x27]"
| "py_str IndexError = ''list index out of range''"
| "py_str TimeoutError = []"
| "py_str (HTTPException st d) = str_nat st @ '': '' @ d"

section \<open>Rate limiter (main.py, class RateLimiter)\<close>

text \<open>
  The object holds \<open>max_requests\<close>, \<open>window_seconds\<close> and the list \<open>requests\<close> of
  recorded timestamps. \<open>wait_if_needed\<close> reads the clock once (\<open>now\<close>), prunes the
  list, sleeps when the pruned list is full, and appends \<open>now\<close>. The model takes the
  clock reading as an argument and returns the updated object together with the time
  slept (0 when the call does not sleep). Timestamps are rationals; indexing the empty
  list (\<open>self.requests[0]\<close> when \<open>max_requests \<le> 0\<close>) is the \<open>IndexError\<close> branch.
\<close>

record rate_limiter =
  max_requests :: int
  window_seconds :: int
  requests :: "rat list"

definition RateLimiter_init :: "int \<Rightarrow> int \<Rightarrow> rate_limiter" where
  "RateLimiter_init mr ws = \<lparr>max_requests = mr, window_seconds = ws, requests = []\<rparr>"

definition wait_if_needed :: "rate_limiter \<Rightarrow> rat \<Rightarrow> py_error + (rate_limiter \<times> rat)" where
  "wait_if_needed self now =
     (let kept = filter (\<lambda>req_time. now - req_time < of_int (window_seconds self)) (requests self)
      in if int (length kept) \<ge> max_requests self
         then (case kept of
                 [] \<Rightarrow> Inl IndexError
               | oldest # _ \<Rightarrow>
                   (let wait_time = of_int (window_seconds self) - (now - oldest) + 1
                    in Inr (self\<lparr>requests := kept @ [now]\<rparr>,
                            if wait_time > 0 then wait_time else 0)))
         else Inr (self\<lparr>requests := kept @ [now]\<rparr>, 0))"

text \<open>
  A caller that issues \<open>n\<close> calls back to back: the clock advances only by the sleeps
  of the limiter itself. The result is the limiter, the clock, and the instants at which
  the calls returned, that is, at which the guarded requests went out.
\<close>

fun back_to_back :: "nat \<Rightarrow> rate_limiter \<Rightarrow> rat \<Rightarrow> rat list \<Rightarrow> py_error + (rate_limiter \<times> rat \<times> rat list)" where
  "back_to_back 0 self clock released = Inr (self, clock, released)"
| "back_to_back (Suc n) self clock released =
     (case wait_if_needed self clock of
        Inl e \<Rightarrow> Inl e
      | Inr (self', slept) \<Rightarrow> back_to_back n self' (clock + slept) (released @ [clock + slept]))"

text \<open>The number of instants of a list that lie in the half-open window ending at \<open>t\<close>.\<close>

definition in_window :: "int \<Rightarrow> rat \<Rightarrow> rat list \<Rightarrow> nat" where
  "in_window w t ts = length (filter (\<lambda>r. t - of_int w < r \<and> r \<le> t) ts)"

section \<open>Cloud backend call with retry (main.py, call\_gemini\_api\_with\_retry)\<close>

text \<open>
  What one HTTP attempt can do is an input of the model: the server answers with a
  status, the parsed JSON body and the raw text, or the client raises. Of the JSON body
  only what the code inspects is kept: the list under \<open>candidates\<close> (empty when the key
  is absent or falsy), for a candidate its \<open>content.parts\<close> (\<open>None\<close> when \<open>content\<close>
  is absent or falsy, the empty list when \<open>parts\<close> is), and for a part its \<open>text\<close>
  entry (\<open>None\<close> when the key is absent).
\<close>

type_synonym part = "string option"

datatype candidate = Candidate (content_parts: "part list option")

record http_response =
  status :: nat
  candidates :: "candidate list"
  body_text :: string

datatype attempt_outcome = Responded http_response | Raised py_error

datatype attempt_step = Return string | Continue nat | Raise py_error

text \<open>The body of the \<open>try\<close> block: it returns, sleeps and continues, or raises.\<close>

definition try_block :: "attempt_outcome \<Rightarrow> int \<Rightarrow> nat \<Rightarrow> py_error + attempt_step" where
  "try_block out max_retries attempt =
     (case out of
        Raised e \<Rightarrow> Inl e
      | Responded response \<Rightarrow>
          if status response = 200 then
            (case candidates response of
               [] \<Rightarrow> Inl (Exception ''Empty response from Gemini API'')
             | c # _ \<Rightarrow>
                 (case content_parts c of
                    None \<Rightarrow> Inl (Exception ''Empty response from Gemini API'')
                  | Some [] \<Rightarrow> Inl (Exception ''Empty response from Gemini API'')
                  | Some (p # _) \<Rightarrow>
                      (case p of None \<Rightarrow> Inl (KeyError ''text'') | Some t \<Rightarrow> Inr (Return t))))
          else if status response = 429 then
            (if int attempt < max_retries - 1
             then Inr (Continue (2 ^ attempt * 2))
             else Inl (Exception ''Rate limit exceeded - please try again later''))
          else if status response = 403 then
            Inl (Exception ''Invalid API key or insufficient permissions'')
          else
            Inl (Exception (''API error '' @ str_nat (status response) @ '': '' @ body_text response)))"

text \<open>The two \<open>except\<close> clauses, in the order of the source.\<close>

definition attempt_body :: "attempt_outcome \<Rightarrow> int \<Rightarrow> nat \<Rightarrow> attempt_step" where
  "attempt_body out max_retries attempt =
     (case try_block out max_retries attempt of
        Inr step \<Rightarrow> step
      | Inl TimeoutError \<Rightarrow>
          if int attempt < max_retries - 1
          then Continue (2 ^ attempt * 1)
          else Raise (Exception ''Request timeout - please try again'')
      | Inl e \<Rightarrow>
          if int attempt < max_retries - 1 \<and> str_contains (lower (py_str e)) ''rate limit''
          then Continue (2 ^ attempt * 2)
          else Raise e)"

datatype call_outcome = Returned string | ReturnedNone | Failed py_error

record call_result =
  outcome :: call_outcome
  attempts :: nat
  sleeps :: "nat list"

text \<open>
  The \<open>for attempt in range(max_retries)\<close> loop over the attempt numbers still to run.
  \<open>made\<close> counts the attempts already made and \<open>slept\<close> lists the arguments of the
  \<open>asyncio.sleep\<close> calls so far. Falling off the end of the loop returns \<open>None\<close>.
\<close>

fun retry_loop :: "(nat \<Rightarrow> attempt_outcome) \<Rightarrow> int \<Rightarrow> nat list \<Rightarrow> nat \<Rightarrow> nat list \<Rightarrow> call_result" where
  "retry_loop srv max_retries [] made slept =
     \<lparr>outcome = ReturnedNone, attempts = made, sleeps = slept\<rparr>"
| "retry_loop srv max_retries (attempt # rest) made slept =
     (case attempt_body (srv attempt) max_retries attempt of
        Return t \<Rightarrow> \<lparr>outcome = Returned t, attempts = Suc made, sleeps = slept\<rparr>
      | Raise e \<Rightarrow> \<lparr>outcome = Failed e, attempts = Suc made, sleeps = slept\<rparr>
      | Continue wait_time \<Rightarrow> retry_loop srv max_retries rest (Suc made) (slept @ [wait_time]))"

definition call_gemini_api_with_retry :: "(nat \<Rightarrow> attempt_outcome) \<Rightarrow> int \<Rightarrow> call_result" where
  "call_gemini_api_with_retry srv max_retries =
     retry_loop srv max_retries [0..<nat max_retries] 0 []"

text \<open>A 200 answer from which the code extracts no text and raises the empty-response error.\<close>

definition empty_response :: "http_response \<Rightarrow> bool" where
  "empty_response r \<longleftrightarrow>
     status r = 200 \<and>
     (case candidates r of
        [] \<Rightarrow> True
      | c # _ \<Rightarrow> (case content_parts c of None \<Rightarrow> True | Some ps \<Rightarrow> ps = []))"

section \<open>Document loaders (pages/rag\_cag.py, backend/embeddings/test.py)\<close>

text \<open>
  \<open>Path(p).suffix\<close> of the standard library: the final path component is what
  follows the last slash once trailing slashes are dropped, and the suffix is its tail
  from the last dot when that dot is neither its first nor its last character.
\<close>

definition path_name :: "string \<Rightarrow> string" where
  "path_name p =
     rev (takeWhile (\<lambda>c. c \<noteq> CHR ''/'') (dropWhile (\<lambda>c. c = CHR ''/'') (rev p)))"

definition path_suffix :: "string \<Rightarrow> string" where
  "path_suffix p =
     (let name = path_name p;
          ext = rev (takeWhile (\<lambda>c. c \<noteq> CHR ''.'') (rev name))
      in if CHR ''.'' \<in> set name \<and> ext \<noteq> [] \<and> length ext + 1 < length name
         then CHR ''.'' # ext
         else [])"

text \<open>
  The loader classes are library code: \<open>loaders k p\<close> is the outcome of constructing
  loader \<open>k\<close> on path \<open>p\<close> and calling \<open>load()\<close>, the documents or the exception.
\<close>

datatype loader_kind = PyPDFLoader | CSVLoader | UnstructuredExcelLoader | TextLoader | Docx2txtLoader

type_synonym loaders = "loader_kind \<Rightarrow> string \<Rightarrow> py_error + doc list"

definition process_document_loader :: "string \<Rightarrow> loader_kind" where
  "process_document_loader file_path =
     (let file_extension = lower (path_suffix file_path)
      in if file_extension = ''.pdf'' then PyPDFLoader
         else if file_extension = ''.csv'' then CSVLoader
         else if file_extension = ''.xlsx'' then UnstructuredExcelLoader
         else TextLoader)"

text \<open>
  \<open>process_document\<close> of rag\_cag.py. Every exception of the loader is caught and
  reported on the page, and the empty list is returned: the result is written as a sum
  so that a failure could be told from a result, and the second component lists the
  reported errors.
\<close>

definition process_document :: "loaders \<Rightarrow> string \<Rightarrow> (py_error + doc list) \<times> string list" where
  "process_document ld file_path =
     (case ld (process_document_loader file_path) file_path of
        Inr documents \<Rightarrow> (Inr documents, [])
      | Inl e \<Rightarrow> (Inr [], [''Error loading '' @ file_path @ '': '' @ py_str e]))"

text \<open>
  \<open>create_openai_embeddings\<close> of test.py, up to the split chunks it returns; the text
  splitter is library code and a parameter.
\<close>

definition create_openai_embeddings :: "loaders \<Rightarrow> (doc list \<Rightarrow> doc list) \<Rightarrow> string \<Rightarrow> py_error + doc list" where
  "create_openai_embeddings ld split_documents doc_path =
     (if endswith doc_path ''.docx'' then
        (case ld Docx2txtLoader doc_path of Inl e \<Rightarrow> Inl e | Inr documents \<Rightarrow> Inr (split_documents documents))
      else if endswith doc_path ''.pdf'' then
        (case ld PyPDFLoader doc_path of Inl e \<Rightarrow> Inl e | Inr documents \<Rightarrow> Inr (split_documents documents))
      else Inl (ValueError (''Unsupported file type: '' @ doc_path)))"

section \<open>FAISS store of the pages (pages/rag\_cag.py, build\_vectordb)\<close>

text \<open>
  The persisted store of a directory is the list of its records, \<open>None\<close> when the
  path \<open>{directory_name}_vectorstore\<close> does not exist. The library calls can raise:
  the environment says for each whether it does (\<open>None\<close> is success).
\<close>

record faiss_env =
  load_local :: "py_error option"
  faiss_add_documents :: "doc list \<Rightarrow> py_error option"
  faiss_from_documents :: "doc list \<Rightarrow> py_error option"

text \<open>
  The result is the exception that leaves the function, if any, the persisted store
  afterwards and the warnings shown. \<open>save_local\<close> replaces what the path held.
\<close>

definition build_vectordb :: "faiss_env \<Rightarrow> doc list \<Rightarrow> doc list option \<Rightarrow> py_error option \<times> doc list option \<times> string list" where
  "build_vectordb env chunks disk =
     (let create = (\<lambda>warnings.
            case faiss_from_documents env chunks of
              Some e \<Rightarrow> (Some e, disk, warnings)
            | None \<Rightarrow> (None, Some chunks, warnings))
      in case disk of
           None \<Rightarrow> create []
         | Some persisted \<Rightarrow>
             (case (case load_local env of Some e \<Rightarrow> Some e | None \<Rightarrow> faiss_add_documents env chunks) of
                None \<Rightarrow> (None, Some (persisted @ chunks), [])
              | Some e \<Rightarrow>
                  create [''Error loading existing vector store: '' @ py_str e @ ''. Creating new one.'']))"

section \<open>Chroma store of the ingestion script (backend/embeddings/test.py)\<close>

record chroma_env =
  sources_open :: "py_error option"
  update_open :: "py_error option"
  reopen :: "py_error option"
  add_documents :: "doc list \<Rightarrow> py_error option"
  from_documents :: "doc list \<Rightarrow> py_error option"

definition get_supported_files :: "string \<Rightarrow> string list option \<Rightarrow> string list" where
  "get_supported_files directory listing =
     (case listing of
        None \<Rightarrow> []
      | Some names \<Rightarrow>
          map (\<lambda>file. directory @ ''/'' @ file)
            (filter (\<lambda>file. list_ex (\<lambda>ext. endswith file ext) [''.docx'', ''.pdf'']) names))"

definition get_existing_sources :: "chroma_env \<Rightarrow> doc list option \<Rightarrow> string set" where
  "get_existing_sources env store =
     (case store of
        None \<Rightarrow> {}
      | Some records \<Rightarrow>
          (case sources_open env of
             Some e \<Rightarrow> {}
           | None \<Rightarrow> set (List.map_filter source records)))"

text \<open>Adding batches with each failure caught (existing store), and without (new store).\<close>

fun add_batches_caught :: "(doc list \<Rightarrow> py_error option) \<Rightarrow> doc list list \<Rightarrow> doc list \<Rightarrow> doc list" where
  "add_batches_caught add [] records = records"
| "add_batches_caught add (batch # rest) records =
     (case add batch of
        None \<Rightarrow> add_batches_caught add rest (records @ batch)
      | Some e \<Rightarrow> add_batches_caught add rest records)"

fun add_batches_raising :: "(doc list \<Rightarrow> py_error option) \<Rightarrow> doc list list \<Rightarrow> doc list \<Rightarrow> py_error option \<times> doc list" where
  "add_batches_raising add [] records = (None, records)"
| "add_batches_raising add (batch # rest) records =
     (case add batch of
        None \<Rightarrow> add_batches_raising add rest (records @ batch)
      | Some e \<Rightarrow> (Some e, records))"

definition create_or_update_vector_store :: "(string \<Rightarrow> nat) \<Rightarrow> chroma_env \<Rightarrow> doc list \<Rightarrow> doc list option \<Rightarrow> py_error option \<times> doc list option" where
  "create_or_update_vector_store tok env docs store =
     (case store of
        None \<Rightarrow>
          if length docs > 100 then
            (case create_batches tok docs 200000 of
               [] \<Rightarrow> (Some IndexError, None)
             | first # remaining \<Rightarrow>
                 (case from_documents env first of
                    Some e \<Rightarrow> (Some e, None)
                  | None \<Rightarrow>
                      (case add_batches_raising (add_documents env) remaining first of
                         (err, records) \<Rightarrow> (err, Some records))))
          else
            (case from_documents env docs of
               Some e \<Rightarrow> (Some e, None)
             | None \<Rightarrow> (None, Some docs))
      | Some records \<Rightarrow>
          (case update_open env of
             Some e \<Rightarrow> (Some e, Some records)
           | None \<Rightarrow>
               (None, Some (add_batches_caught (add_documents env) (create_batches tok docs 200000) records))))"

text \<open>The files of a run that are not yet in the store, and the chunks loaded from them.\<close>

definition new_files :: "chroma_env \<Rightarrow> string \<Rightarrow> string list option \<Rightarrow> doc list option \<Rightarrow> string list" where
  "new_files env files_dir listing store =
     filter (\<lambda>f. f \<notin> get_existing_sources env store) (get_supported_files files_dir listing)"

fun load_all :: "loaders \<Rightarrow> (doc list \<Rightarrow> doc list) \<Rightarrow> string list \<Rightarrow> doc list" where
  "load_all ld split_documents [] = []"
| "load_all ld split_documents (doc_path # rest) =
     (case create_openai_embeddings ld split_documents doc_path of
        Inr docs \<Rightarrow> docs @ load_all ld split_documents rest
      | Inl e \<Rightarrow> load_all ld split_documents rest)"

datatype ingest_result = NoResult | Db | Crashed py_error

definition process_all_documents :: "(string \<Rightarrow> nat) \<Rightarrow> chroma_env \<Rightarrow> loaders \<Rightarrow> (doc list \<Rightarrow> doc list) \<Rightarrow> string \<Rightarrow> string list option \<Rightarrow> doc list option \<Rightarrow> ingest_result \<times> doc list option" where
  "process_all_documents tok env ld split_documents files_dir listing store =
     (if get_supported_files files_dir listing = [] then (NoResult, store)
      else
        (let todo = new_files env files_dir listing store in
         if todo = [] then
           (case store of
              None \<Rightarrow> (NoResult, store)
            | Some records \<Rightarrow>
                (case reopen env of Some e \<Rightarrow> (Crashed e, store) | None \<Rightarrow> (Db, store)))
         else
           (let all_docs = load_all ld split_documents todo in
            if all_docs = [] then (NoResult, store)
            else
              (case create_or_update_vector_store tok env all_docs store of
                 (Some e, store') \<Rightarrow> (Crashed e, store')
               | (None, store') \<Rightarrow> (Db, store')))))"

text \<open>The records of a persisted store, none when there is no store.\<close>

definition records_of :: "doc list option \<Rightarrow> doc list" where
  "records_of store = (case store of None \<Rightarrow> [] | Some records \<Rightarrow> records)"

section \<open>Upload endpoint (main.py, upload\_corporate\_documents)\<close>

text \<open>
  An uploaded file with the size the framework reports for it (possibly none).
  Indexing a saved file (the temporary copy, \<open>process_document\<close>, \<open>split_documents\<close>,
  \<open>build_vectordb\<close>) is the parameter \<open>index\<close>: the number of chunks, or the exception
  that leaves it. \<open>MAX_FILE_SIZE\<close> comes from the process environment and is a
  parameter, as is the one-decimal rendering of its size in megabytes.
\<close>

record upload_file =
  filename :: string
  reported_size :: "int option"
  file_content :: string

record processed_file =
  pf_filename :: string
  pf_size :: nat
  pf_chunks :: nat
  pf_type :: string

record upload_state =
  processed_files :: "processed_file list"
  total_chunks :: nat
  written :: "string list"
  skipped :: "string list"

definition allowed_extensions :: "string list" where
  "allowed_extensions = [''.txt'', ''.pdf'', ''.md'', ''.csv'', ''.xlsx'', ''.docx'', ''.json'', ''.sql'']"

definition too_large :: "int \<Rightarrow> upload_file \<Rightarrow> bool" where
  "too_large MAX_FILE_SIZE file =
     (case reported_size file of None \<Rightarrow> False | Some s \<Rightarrow> s \<noteq> 0 \<and> s > MAX_FILE_SIZE)"

definition os_path_join :: "string \<Rightarrow> string \<Rightarrow> string" where
  "os_path_join d f = (if startswith f ''/'' then f else d @ ''/'' @ f)"

fun upload_loop :: "(string \<Rightarrow> upload_file \<Rightarrow> py_error + nat) \<Rightarrow> int \<Rightarrow> (int \<Rightarrow> string) \<Rightarrow> string \<Rightarrow> upload_file list \<Rightarrow> upload_state \<Rightarrow> upload_state \<times> py_error option" where
  "upload_loop index MAX_FILE_SIZE fmt_mb category [] st = (st, None)"
| "upload_loop index MAX_FILE_SIZE fmt_mb category (file # rest) st =
     (if too_large MAX_FILE_SIZE file then
        (st, Some (HTTPException 413
           (''File '' @ filename file @ '' exceeds maximum size of '' @ fmt_mb MAX_FILE_SIZE @ ''MB'')))
      else
        (let file_extension = lower (path_suffix (filename file)) in
         if file_extension \<notin> set allowed_extensions then
           upload_loop index MAX_FILE_SIZE fmt_mb category rest
             (st\<lparr>skipped := skipped st @ [filename file]\<rparr>)
         else
           (let target_dir = category @ ''_docs'';
                st1 = st\<lparr>written := written st @ [os_path_join target_dir (filename file)]\<rparr>
            in case (if category \<in> set [''rag'', ''cag''] then index target_dir file else Inr 0) of
                 Inl e \<Rightarrow> (st1, Some e)
               | Inr chunks_count \<Rightarrow>
                   upload_loop index MAX_FILE_SIZE fmt_mb category rest
                     (st1\<lparr>processed_files := processed_files st1 @
                             [\<lparr>pf_filename = filename file, pf_size = length (file_content file),
                               pf_chunks = chunks_count, pf_type = file_extension\<rparr>],
                          total_chunks := total_chunks st1 + chunks_count\<rparr>))))"

datatype http_result = Success "processed_file list" nat | HTTPError nat string

definition upload_start :: upload_state where
  "upload_start = \<lparr>processed_files = [], total_chunks = 0, written = [], skipped = []\<rparr>"

definition upload_corporate_documents :: "(string \<Rightarrow> upload_file \<Rightarrow> py_error + nat) \<Rightarrow> int \<Rightarrow> (int \<Rightarrow> string) \<Rightarrow> string \<Rightarrow> upload_file list \<Rightarrow> http_result \<times> upload_state" where
  "upload_corporate_documents index MAX_FILE_SIZE fmt_mb category files =
     (if category \<notin> set [''rag'', ''cag'', ''mapping''] then
        (HTTPError 400 ''Invalid document category'', upload_start)
      else
        (case upload_loop index MAX_FILE_SIZE fmt_mb category files upload_start of
           (st, None) \<Rightarrow> (Success (processed_files st) (total_chunks st), st)
         | (st, Some e) \<Rightarrow> (HTTPError 500 (''Processing error: '' @ py_str e), st)))"

section \<open>Concrete scenarios\<close>

text \<open>Server scripts for the cloud call: what the \<open>n\<close>-th attempt meets.\<close>

definition rate_limited_response :: http_response where
  "rate_limited_response = \<lparr>status = 429, candidates = [], body_text = ''Too Many Requests''\<rparr>"

definition ok_response :: http_response where
  "ok_response = \<lparr>status = 200, candidates = [Candidate (Some [Some ''Guten Tag''])], body_text = []\<rparr>"

definition no_candidates_response :: http_response where
  "no_candidates_response = \<lparr>status = 200, candidates = [], body_text = []\<rparr>"

definition forbidden_response :: http_response where
  "forbidden_response = \<lparr>status = 403, candidates = [], body_text = ''Forbidden''\<rparr>"

definition two_429_then_ok :: "nat \<Rightarrow> attempt_outcome" where
  "two_429_then_ok attempt = Responded (if attempt < 2 then rate_limited_response else ok_response)"

definition always_429 :: "nat \<Rightarrow> attempt_outcome" where
  "always_429 attempt = Responded rate_limited_response"

definition always_403 :: "nat \<Rightarrow> attempt_outcome" where
  "always_403 attempt = Responded forbidden_response"

definition always_empty :: "nat \<Rightarrow> attempt_outcome" where
  "always_empty attempt = Responded no_candidates_response"

text \<open>Stores, loaders and uploads used as concrete inputs.\<close>

definition old_record :: doc where
  "old_record = \<lparr>page_content = ''persisted earlier'', source = Some ''docs/a.pdf''\<rparr>"

definition new_chunk :: doc where
  "new_chunk = \<lparr>page_content = ''uploaded now'', source = Some ''docs/b.pdf''\<rparr>"

definition faiss_all_ok :: faiss_env where
  "faiss_all_ok =
     \<lparr>load_local = None, faiss_add_documents = (\<lambda>chunks. None), faiss_from_documents = (\<lambda>chunks. None)\<rparr>"

definition faiss_load_fails :: faiss_env where
  "faiss_load_fails =
     \<lparr>load_local = Some (Exception ''could not read index''),
      faiss_add_documents = (\<lambda>chunks. None), faiss_from_documents = (\<lambda>chunks. None)\<rparr>"

definition chroma_all_ok :: chroma_env where
  "chroma_all_ok =
     \<lparr>sources_open = None, update_open = None, reopen = None,
      add_documents = (\<lambda>batch. None), from_documents = (\<lambda>batch. None)\<rparr>"

definition tagging_loaders :: loaders where
  "tagging_loaders k p = Inr [\<lparr>page_content = ''text'', source = Some p\<rparr>]"

definition no_split :: "doc list \<Rightarrow> doc list" where
  "no_split documents = documents"

definition small_file :: upload_file where
  "small_file = \<lparr>filename = ''a.txt'', reported_size = Some 10, file_content = ''0123456789''\<rparr>"

definition oversized_file :: upload_file where
  "oversized_file = \<lparr>filename = ''b.pdf'', reported_size = Some 20000000, file_content = ''%PDF''\<rparr>"

definition later_file :: upload_file where
  "later_file = \<lparr>filename = ''c.txt'', reported_size = Some 3, file_content = ''abc''\<rparr>"

definition unsupported_file :: upload_file where
  "unsupported_file = \<lparr>filename = ''tool.exe'', reported_size = Some 2, file_content = ''MZ''\<rparr>"

definition index_three :: "string \<Rightarrow> upload_file \<Rightarrow> py_error + nat" where
  "index_three target_dir file = Inr 3"

definition fmt_ten :: "int \<Rightarrow> string" where
  "fmt_ten n = ''10.0''"

definition a_chunk :: doc where
  "a_chunk = \<lparr>page_content = ''text'', source = Some ''docs/a.pdf''\<rparr>"

definition chroma_lookup_fails :: chroma_env where
  "chroma_lookup_fails =
     \<lparr>sources_open = Some (Exception ''database is locked''), update_open = None, reopen = None,
      add_documents = (\<lambda>batch. None), from_documents = (\<lambda>batch. None)\<rparr>"

definition kind_loaders :: loaders where
  "kind_loaders k p =
     Inr [\<lparr>page_content =
             (case k of
                PyPDFLoader \<Rightarrow> ''pdf pages''
              | CSVLoader \<Rightarrow> ''csv rows''
              | UnstructuredExcelLoader \<Rightarrow> ''excel sheets''
              | TextLoader \<Rightarrow> ''plain text''
              | Docx2txtLoader \<Rightarrow> ''docx text''),
           source = Some p\<rparr>]"

section \<open>Properties of the token batcher\<close>

lemma batch_tokens_simps:
  "batch_tokens tok [] = 0"
  "batch_tokens tok (b @ [d]) = batch_tokens tok b + int (tok (page_content d))"
  "batch_tokens tok [d] = int (tok (page_content d))"
  by (simp_all add: batch_tokens_def)

lemma batch_tokens_nonneg: "0 \<le> batch_tokens tok b"
  unfolding batch_tokens_def by (induction b) simp_all

lemma batch_step_inv:
  assumes "batch_inv tok m st"
  shows "batch_inv tok m (batch_step tok m st d)"
proof -
  obtain batches cur t where st: "st = (batches, cur, t)"
    by (cases st) auto
  from assms st have fin: "list_all (batch_ok tok m) batches"
    and t: "t = batch_tokens tok cur"
    and cur: "cur = [] \<or> batch_ok tok m cur"
    by (simp_all add: batch_inv_def)
  let ?k = "int (tok (page_content d))"
  show ?thesis
  proof (cases "t + ?k > m \<and> cur \<noteq> []")
    case True
    then have ok: "batch_ok tok m cur" using cur by blast
    have "batch_ok tok m [d]"
      by (auto simp: batch_ok_def batch_tokens_simps)
    with True fin ok show ?thesis
      by (simp add: st batch_step_def batch_inv_def batch_tokens_simps)
  next
    case False
    then consider (fits) "t + ?k \<le> m" | (first) "cur = []" "t + ?k > m"
      by fastforce
    then have "batch_ok tok m (cur @ [d])"
    proof cases
      case fits
      then show ?thesis by (simp add: batch_ok_def batch_tokens_simps t)
    next
      case first
      then show ?thesis by (simp add: batch_ok_def batch_tokens_simps t)
    qed
    with False fin t show ?thesis
      by (auto simp: st batch_step_def batch_inv_def batch_tokens_simps Let_def)
  qed
qed

lemma batch_foldl_inv:
  "batch_inv tok m st \<Longrightarrow> batch_inv tok m (foldl (batch_step tok m) st docs)"
  by (induction docs arbitrary: st) (simp_all add: batch_step_inv)

lemma batch_step_flat: "batch_flat (batch_step tok m st d) = batch_flat st @ [d]"
  by (cases st) (simp add: batch_step_def batch_flat_def Let_def)

lemma batch_foldl_flat:
  "batch_flat (foldl (batch_step tok m) st docs) = batch_flat st @ docs"
  by (induction docs arbitrary: st) (simp_all add: batch_step_flat)

lemma create_batches_all_ok: "list_all (batch_ok tok m) (create_batches tok docs m)"
proof -
  have "batch_inv tok m ([], [], 0)"
    by (simp add: batch_inv_def batch_tokens_simps)
  then have "batch_inv tok m (foldl (batch_step tok m) ([], [], 0) docs)"
    by (rule batch_foldl_inv)
  then show ?thesis
    by (auto simp: create_batches_def batch_inv_def split: prod.splits)
qed

lemma create_batches_concat: "concat (create_batches tok docs m) = docs"
proof -
  obtain batches cur t where f: "foldl (batch_step tok m) ([], [], 0) docs = (batches, cur, t)"
    by (cases "foldl (batch_step tok m) ([], [], 0) docs") auto
  have "batch_flat (foldl (batch_step tok m) ([], [], 0) docs) = batch_flat ([], [], 0) @ docs"
    by (rule batch_foldl_flat)
  then have "concat batches @ cur = docs"
    by (simp add: f batch_flat_def)
  then show ?thesis
    by (auto simp: create_batches_def f)
qed

lemma batch_tokens_member:
  "d \<in> set b \<Longrightarrow> int (tok (page_content d)) \<le> batch_tokens tok b"
proof (induction b)
  case Nil
  then show ?case by simp
next
  case (Cons x b)
  have nn: "0 \<le> batch_tokens tok b" by (rule batch_tokens_nonneg)
  have step: "batch_tokens tok (x # b) = int (tok (page_content x)) + batch_tokens tok b"
    by (simp add: batch_tokens_def)
  show ?case
  proof (cases "d = x")
    case True
    with nn step show ?thesis by simp
  next
    case False
    with Cons have "int (tok (page_content d)) \<le> batch_tokens tok b" by simp
    with step show ?thesis by simp
  qed
qed

lemma batch_ok_shape:
  assumes "batch_ok tok m b"
  shows "batch_tokens tok b \<le> m \<or> (\<exists>d. b = [d] \<and> int (tok (page_content d)) > m)"
proof (cases "batch_tokens tok b \<le> m")
  case True
  then show ?thesis by simp
next
  case False
  with assms have len: "length b = 1" and big: "batch_tokens tok b > m"
    by (simp_all add: batch_ok_def)
  from len obtain d where b: "b = [d]"
    by (cases b) auto
  with big show ?thesis by (simp add: batch_tokens_simps)
qed

text \<open>
  Claim C1. Every batch that \<open>create_batches\<close> returns has a token sum within
  \<open>max_tokens_per_batch\<close>, or consists of exactly one chunk whose own token count
  exceeds the limit; and every chunk of the input whose token count exceeds the limit
  is returned as a batch of its own (not dropped, not split, not grouped with another).
  This holds for every limit, in particular for every positive one.
\<close>

theorem create_batches_within_limit:
  "(\<forall>b \<in> set (create_batches tok docs m).
      batch_tokens tok b \<le> m \<or> (\<exists>d. b = [d] \<and> int (tok (page_content d)) > m))
   \<and> (\<forall>d \<in> set docs. int (tok (page_content d)) > m \<longrightarrow> [d] \<in> set (create_batches tok docs m))"
proof (intro conjI ballI impI)
  fix b
  assume "b \<in> set (create_batches tok docs m)"
  with create_batches_all_ok [of tok m docs] have "batch_ok tok m b"
    by (simp add: list_all_iff)
  then show "batch_tokens tok b \<le> m \<or> (\<exists>d. b = [d] \<and> int (tok (page_content d)) > m)"
    by (rule batch_ok_shape)
next
  fix d
  assume d: "d \<in> set docs" and big: "int (tok (page_content d)) > m"
  from d have "d \<in> set (concat (create_batches tok docs m))"
    by (simp only: create_batches_concat)
  then obtain b where b: "b \<in> set (create_batches tok docs m)" and db: "d \<in> set b"
    by auto
  from b create_batches_all_ok [of tok m docs] have "batch_ok tok m b"
    by (simp add: list_all_iff)
  then have "batch_tokens tok b \<le> m \<or> (\<exists>x. b = [x] \<and> int (tok (page_content x)) > m)"
    by (rule batch_ok_shape)
  moreover from db have "int (tok (page_content d)) \<le> batch_tokens tok b"
    by (rule batch_tokens_member)
  ultimately have "\<exists>x. b = [x]" using big by auto
  with db have "b = [d]" by auto
  with b show "[d] \<in> set (create_batches tok docs m)" by simp
qed

theorem create_batches_within_limit_witness:
  "batch_tokens length [\<lparr>page_content = ''ab'', source = None\<rparr>, \<lparr>page_content = ''cde'', source = None\<rparr>] \<le> 5
   \<and> [\<lparr>page_content = ''fghijk'', source = None\<rparr>]
       \<in> set (create_batches length
                 [\<lparr>page_content = ''ab'', source = None\<rparr>, \<lparr>page_content = ''cde'', source = None\<rparr>,
                  \<lparr>page_content = ''fghijk'', source = None\<rparr>] 5)"
proof -
  let ?d1 = "\<lparr>page_content = ''ab'', source = None\<rparr>"
  let ?d2 = "\<lparr>page_content = ''cde'', source = None\<rparr>"
  let ?d3 = "\<lparr>page_content = ''fghijk'', source = None\<rparr>"
  have run: "create_batches length [?d1, ?d2, ?d3] 5 = [[?d1, ?d2], [?d3]]"
    by (simp add: create_batches_def batch_step_def)
  from create_batches_within_limit [of length "[?d1, ?d2, ?d3]" 5]
  have small: "\<forall>b \<in> set (create_batches length [?d1, ?d2, ?d3] 5).
      batch_tokens length b \<le> 5 \<or> (\<exists>d. b = [d] \<and> int (length (page_content d)) > 5)"
    and big: "\<forall>d \<in> set [?d1, ?d2, ?d3]. int (length (page_content d)) > 5 \<longrightarrow>
      [d] \<in> set (create_batches length [?d1, ?d2, ?d3] 5)"
    by blast+
  from small run have "batch_tokens length [?d1, ?d2] \<le> 5"
    by simp
  moreover from big have "[?d3] \<in> set (create_batches length [?d1, ?d2, ?d3] 5)"
    by simp
  ultimately show ?thesis by blast
qed

text \<open>
  Claim C2. Concatenating the batches returned by \<open>create_batches\<close>, in batch order
  and within-batch order, gives back the input list of chunks, for every input list and
  every limit.
\<close>

theorem create_batches_lossless:
  "concat (create_batches tok docs max_tokens_per_batch) = docs"
  by (rule create_batches_concat)

section \<open>Properties of the rate limiter\<close>

text \<open>
  When the pruned list is full the call sleeps, and once it has slept the oldest
  timestamp it kept is no longer inside the window.
\<close>

lemma wait_if_needed_full_delays:
  assumes run: "wait_if_needed self now = Inr (self', slept)"
    and kept: "kept = filter (\<lambda>req_time. now - req_time < of_int (window_seconds self)) (requests self)"
    and full: "int (length kept) \<ge> max_requests self"
  shows "\<exists>oldest rest. kept = oldest # rest \<and> slept > 0 \<and>
           now + slept - oldest \<ge> of_int (window_seconds self)"
proof (cases kept)
  case Nil
  with run kept full show ?thesis
    by (simp add: wait_if_needed_def Let_def)
next
  case (Cons oldest rest)
  then have "oldest \<in> set kept" by simp
  then have young: "now - oldest < of_int (window_seconds self)"
    by (simp add: kept)
  from run kept [symmetric] full Cons young
  have "slept = of_int (window_seconds self) - (now - oldest) + 1"
    by (simp add: wait_if_needed_def Let_def split: if_splits)
  with young Cons show ?thesis by simp
qed

text \<open>
  Claim C3. The claim asks that the limiter never has more than \<open>max_requests\<close>
  requests recorded within a window of \<open>window_seconds\<close>. With the defaults
  (14 requests per 60 seconds) and calls issued back to back from clock 0, the code
  does otherwise: the 15th call sleeps 61 seconds but then records its stale reading 0,
  so that 15 timestamps, all equal, stand in the list; and since those stale entries
  are all pruned together at 61, the 15th to the 29th call all go out at instant 61,
  15 requests at once.
\<close>

theorem rate_limiter_exceeds_capacity:
  "back_to_back 15 (RateLimiter_init 14 60) 0 [] =
     Inr (\<lparr>max_requests = 14, window_seconds = 60, requests = replicate 15 0\<rparr>,
          61, replicate 14 0 @ [61])
   \<and> (case back_to_back 29 (RateLimiter_init 14 60) 0 [] of
         Inl e \<Rightarrow> False
       | Inr (self, clock, released) \<Rightarrow> in_window 60 61 released = 15)"
  by (simp add: RateLimiter_init_def wait_if_needed_def eval_nat_numeral in_window_def)

section \<open>Properties of the retry loop\<close>

lemma no_rate_limit_in_empty:
  "\<not> str_contains (lower (py_str (Exception ''Empty response from Gemini API''))) ''rate limit''"
  by (simp add: lower_def lower_char_def)

lemma no_rate_limit_in_forbidden:
  "\<not> str_contains (lower (py_str (Exception ''Invalid API key or insufficient permissions''))) ''rate limit''"
  by (simp add: lower_def lower_char_def)

lemma attempt_body_429:
  "status r = 429 \<Longrightarrow> int attempt < max_retries - 1 \<Longrightarrow>
   attempt_body (Responded r) max_retries attempt = Continue (2 ^ attempt * 2)"
  by (simp add: attempt_body_def try_block_def)

lemma attempt_body_403:
  "status r = 403 \<Longrightarrow>
   attempt_body (Responded r) max_retries attempt =
     Raise (Exception ''Invalid API key or insufficient permissions'')"
  using no_rate_limit_in_forbidden
  by (simp add: attempt_body_def try_block_def)

lemma attempt_body_empty:
  "empty_response r \<Longrightarrow>
   attempt_body (Responded r) max_retries attempt =
     Raise (Exception ''Empty response from Gemini API'')"
  using no_rate_limit_in_empty
  by (auto simp: attempt_body_def try_block_def empty_response_def split: list.splits option.splits)

lemma attempt_body_text:
  "status r = 200 \<Longrightarrow> candidates r = Candidate (Some (Some t # ps)) # cs \<Longrightarrow>
   attempt_body (Responded r) max_retries attempt = Return t"
  by (simp add: attempt_body_def try_block_def)

lemma range_three: "3 \<le> n \<Longrightarrow> [0..<n] = 0 # Suc 0 # Suc (Suc 0) # [3..<n]"
  by (simp add: upt_conv_Cons eval_nat_numeral)

text \<open>
  Claim C4. When the first two attempts are answered with status 429 and the third
  with status 200 and a candidate whose first part has a text, the call returns that
  text after exactly three attempts, having slept twice, for \<open>2^0 * 2 = 2\<close> and
  \<open>2^1 * 2 = 4\<close> seconds: the first two delays of the doubling backoff. This holds for
  the default \<open>max_retries = 3\<close> and for every larger ceiling.
\<close>

theorem retry_two_429_then_success:
  assumes mr: "3 \<le> max_retries"
    and a0: "srv 0 = Responded r0" "status r0 = 429"
    and a1: "srv 1 = Responded r1" "status r1 = 429"
    and a2: "srv 2 = Responded r2" "status r2 = 200"
            "candidates r2 = Candidate (Some (Some t # ps)) # cs"
  shows "call_gemini_api_with_retry srv max_retries =
           \<lparr>outcome = Returned t, attempts = 3, sleeps = [2 ^ 0 * 2, 2 ^ 1 * 2]\<rparr>
         \<and> sum_list (sleeps (call_gemini_api_with_retry srv max_retries)) = 2 + 4"
proof -
  from mr have n: "3 \<le> nat max_retries" by simp
  have s0: "attempt_body (srv 0) max_retries 0 = Continue (2 ^ 0 * 2)"
    using mr a0 by (simp add: attempt_body_429)
  have s1: "attempt_body (srv (Suc 0)) max_retries (Suc 0) = Continue (2 ^ (Suc 0) * 2)"
    using mr a1 attempt_body_429 [of r1 "Suc 0" max_retries] by simp
  have s2: "attempt_body (srv (Suc (Suc 0))) max_retries (Suc (Suc 0)) = Return t"
    using a2 attempt_body_text [of r2 t ps cs max_retries "Suc (Suc 0)"]
    by (simp add: eval_nat_numeral)
  have "call_gemini_api_with_retry srv max_retries =
          \<lparr>outcome = Returned t, attempts = 3, sleeps = [2 ^ 0 * 2, 2 ^ 1 * 2]\<rparr>"
    unfolding call_gemini_api_with_retry_def range_three [OF n]
    using s0 s1 s2 by (simp add: eval_nat_numeral)
  then show ?thesis by simp
qed

theorem retry_two_429_then_success_witness:
  "call_gemini_api_with_retry two_429_then_ok 3 =
     \<lparr>outcome = Returned ''Guten Tag'', attempts = 3, sleeps = [2, 4]\<rparr>"
proof -
  have "call_gemini_api_with_retry two_429_then_ok 3 =
          \<lparr>outcome = Returned ''Guten Tag'', attempts = 3, sleeps = [2 ^ 0 * 2, 2 ^ 1 * 2]\<rparr>
        \<and> sum_list (sleeps (call_gemini_api_with_retry two_429_then_ok 3)) = 2 + 4"
    by (rule retry_two_429_then_success
              [of 3 two_429_then_ok rate_limited_response rate_limited_response ok_response
                  "''Guten Tag''" "[]" "[]"])
       (simp_all add: two_429_then_ok_def rate_limited_response_def ok_response_def)
  then show ?thesis by simp
qed

text \<open>
  Claim C5. When the first attempt is answered with status 403, the call makes that
  one attempt, sleeps not at all and fails with the error
  "Invalid API key or insufficient permissions" (for every ceiling of at least one
  attempt, so for the default 3).
\<close>

theorem forbidden_not_retried:
  assumes "0 < max_retries" and "srv 0 = Responded r" and "status r = 403"
  shows "call_gemini_api_with_retry srv max_retries =
           \<lparr>outcome = Failed (Exception ''Invalid API key or insufficient permissions''),
            attempts = 1, sleeps = []\<rparr>"
proof -
  from assms(1) have "[0..<nat max_retries] = 0 # [1..<nat max_retries]"
    by (simp add: upt_conv_Cons)
  with assms(2,3) show ?thesis
    by (simp add: call_gemini_api_with_retry_def attempt_body_403)
qed

theorem forbidden_not_retried_witness:
  "call_gemini_api_with_retry always_403 3 =
     \<lparr>outcome = Failed (Exception ''Invalid API key or insufficient permissions''),
      attempts = 1, sleeps = []\<rparr>"
  by (rule forbidden_not_retried [of 3 always_403 forbidden_response])
     (simp_all add: always_403_def forbidden_response_def)

text \<open>
  Claim C6, as stated, fails: with three attempts allowed, a 200 answer without
  candidates on the first attempt ends the call there, with no sleep and no second
  attempt, whereas a 429 answer is retried after sleeping 2 and then 4 seconds.
\<close>

theorem empty_response_retried_counterexample:
  "call_gemini_api_with_retry always_empty 3 =
     \<lparr>outcome = Failed (Exception ''Empty response from Gemini API''), attempts = 1, sleeps = []\<rparr>
   \<and> attempts (call_gemini_api_with_retry always_429 3) = 3
   \<and> sleeps (call_gemini_api_with_retry always_429 3) = [2, 4]"
  by (simp add: call_gemini_api_with_retry_def always_empty_def always_429_def
        no_candidates_response_def rate_limited_response_def attempt_body_def try_block_def
        upt_conv_Cons eval_nat_numeral lower_def lower_char_def)

text \<open>
  Claim C6, amended. An attempt answered with status 200 but without a candidate, or
  whose first candidate has no content or no parts, raises
  "Empty response from Gemini API" to the caller on that same attempt: the handler
  retries only errors whose message contains "rate limit", so the empty response is
  not retried and no backoff sleep follows, whatever attempts remain.
\<close>

theorem empty_response_not_retried:
  assumes "srv attempt = Responded r" and "empty_response r"
  shows "retry_loop srv max_retries (attempt # rest) made slept =
           \<lparr>outcome = Failed (Exception ''Empty response from Gemini API''),
            attempts = Suc made, sleeps = slept\<rparr>"
  using assms by (simp add: attempt_body_empty)

theorem empty_response_not_retried_witness:
  "retry_loop always_empty 3 [0, 1, 2] 0 [] =
     \<lparr>outcome = Failed (Exception ''Empty response from Gemini API''),
      attempts = Suc 0, sleeps = []\<rparr>"
  by (rule empty_response_not_retried [of always_empty 0 no_candidates_response])
     (simp_all add: always_empty_def no_candidates_response_def empty_response_def)

text \<open>The same at the level of the call, for an empty answer to the first attempt.\<close>

lemma empty_first_attempt_fails:
  assumes "0 < max_retries" and "srv 0 = Responded r" and "empty_response r"
  shows "call_gemini_api_with_retry srv max_retries =
           \<lparr>outcome = Failed (Exception ''Empty response from Gemini API''),
            attempts = 1, sleeps = []\<rparr>"
proof -
  from assms(1) have "[0..<nat max_retries] = 0 # [1..<nat max_retries]"
    by (simp add: upt_conv_Cons)
  with assms(2,3) show ?thesis
    by (simp add: call_gemini_api_with_retry_def attempt_body_empty)
qed

section \<open>Properties of build\_vectordb\<close>

text \<open>
  Claim C7, as stated, fails: a store holding one record exists, loading it raises, and
  after the call the saved store holds the new chunk only.
\<close>

theorem build_vectordb_loses_records_counterexample:
  "build_vectordb faiss_load_fails [new_chunk] (Some [old_record]) =
     (None, Some [new_chunk],
      [''Error loading existing vector store: could not read index. Creating new one.''])
   \<and> old_record \<notin> set (records_of (fst (snd (build_vectordb faiss_load_fails [new_chunk] (Some [old_record])))))"
  by (simp add: build_vectordb_def faiss_load_fails_def records_of_def old_record_def new_chunk_def)

text \<open>
  Claim C7, amended. When the persisted store of the directory loads and the new chunks
  are added without error, \<open>build_vectordb\<close> is append-only: what it saves is the
  previous records followed by the new chunks. When loading the existing store fails
  (and a store can be built from the new chunks), the function shows the warning
  "Error loading existing vector store: ... Creating new one." and saves a store made
  of the new chunks alone in its place.
\<close>

theorem build_vectordb_append_only:
  "(load_local env = None \<and> faiss_add_documents env chunks = None \<longrightarrow>
      build_vectordb env chunks (Some persisted) = (None, Some (persisted @ chunks), []))
   \<and> (load_local env = Some e \<and> faiss_from_documents env chunks = None \<longrightarrow>
      build_vectordb env chunks (Some persisted) =
        (None, Some chunks,
         [''Error loading existing vector store: '' @ py_str e @ ''. Creating new one.'']))"
  by (simp add: build_vectordb_def)

theorem build_vectordb_append_only_witness:
  "build_vectordb faiss_all_ok [new_chunk] (Some [old_record]) = (None, Some [old_record, new_chunk], [])
   \<and> fst (snd (build_vectordb faiss_load_fails [new_chunk] (Some [old_record]))) = Some [new_chunk]"
  using build_vectordb_append_only [where env = faiss_all_ok and chunks = "[new_chunk]" and persisted = "[old_record]"]
        build_vectordb_append_only [where env = faiss_load_fails and chunks = "[new_chunk]"
           and e = "Exception ''could not read index''" and persisted = "[old_record]"]
  by (simp add: faiss_all_ok_def faiss_load_fails_def)

section \<open>Properties of the ingestion run\<close>

lemma add_batches_caught_appends:
  "\<exists>extra. add_batches_caught add batches records = records @ extra \<and> set extra \<subseteq> set (concat batches)"
proof (induction batches arbitrary: records)
  case Nil
  then show ?case by simp
next
  case (Cons batch rest)
  show ?case
  proof (cases "add batch")
    case None
    from Cons [of "records @ batch"] obtain extra
      where "add_batches_caught add rest (records @ batch) = (records @ batch) @ extra"
        and "set extra \<subseteq> set (concat rest)" by blast
    with None have "add_batches_caught add (batch # rest) records = records @ (batch @ extra)
        \<and> set (batch @ extra) \<subseteq> set (concat (batch # rest))"
      by auto
    then show ?thesis by blast
  next
    case (Some e)
    from Cons [of records] obtain extra
      where "add_batches_caught add rest records = records @ extra"
        and "set extra \<subseteq> set (concat rest)" by blast
    with Some have "add_batches_caught add (batch # rest) records = records @ extra
        \<and> set extra \<subseteq> set (concat (batch # rest))"
      by auto
    then show ?thesis by blast
  qed
qed

lemma create_or_update_existing:
  "\<exists>extra. snd (create_or_update_vector_store tok env docs (Some records)) = Some (records @ extra)
      \<and> set extra \<subseteq> set docs"
proof (cases "update_open env")
  case None
  from add_batches_caught_appends [of "add_documents env" "create_batches tok docs 200000" records]
  obtain extra where "add_batches_caught (add_documents env) (create_batches tok docs 200000) records = records @ extra"
    and "set extra \<subseteq> set (concat (create_batches tok docs 200000))" by blast
  with None show ?thesis
    by (auto simp: create_or_update_vector_store_def create_batches_concat)
next
  case (Some e)
  then have "snd (create_or_update_vector_store tok env docs (Some records)) = Some (records @ [])
      \<and> set [] \<subseteq> set docs"
    by (simp add: create_or_update_vector_store_def)
  then show ?thesis by blast
qed

lemma load_all_origin:
  "d \<in> set (load_all ld split_documents paths) \<Longrightarrow>
   \<exists>p \<in> set paths. \<exists>ds. create_openai_embeddings ld split_documents p = Inr ds \<and> d \<in> set ds"
  by (induction paths) (auto split: sum.splits)

lemma process_all_documents_existing:
  "\<exists>extra. snd (process_all_documents tok env ld split_documents files_dir listing (Some records))
        = Some (records @ extra)
      \<and> set extra \<subseteq> set (load_all ld split_documents (new_files env files_dir listing (Some records)))"
proof -
  let ?todo = "new_files env files_dir listing (Some records)"
  let ?docs = "load_all ld split_documents ?todo"
  from create_or_update_existing [of tok env ?docs records]
  obtain extra where e: "snd (create_or_update_vector_store tok env ?docs (Some records)) = Some (records @ extra)"
    and s: "set extra \<subseteq> set ?docs" by blast
  have "snd (process_all_documents tok env ld split_documents files_dir listing (Some records))
          = Some (records @ []) \<or>
        snd (process_all_documents tok env ld split_documents files_dir listing (Some records))
          = snd (create_or_update_vector_store tok env ?docs (Some records))"
    by (auto simp: process_all_documents_def Let_def split: option.splits prod.splits)
  then show ?thesis
  proof
    assume "snd (process_all_documents tok env ld split_documents files_dir listing (Some records))
          = Some (records @ [])"
    then have "snd (process_all_documents tok env ld split_documents files_dir listing (Some records))
          = Some (records @ []) \<and> set [] \<subseteq> set ?docs" by simp
    then show ?thesis by blast
  next
    assume "snd (process_all_documents tok env ld split_documents files_dir listing (Some records))
          = snd (create_or_update_vector_store tok env ?docs (Some records))"
    with e s show ?thesis by auto
  qed
qed

text \<open>
  One run: a source path that \<open>get_existing_sources\<close> returns is not among the files
  the run loads, and the run leaves the records of that source as they were. That a
  loaded chunk carries the path it was loaded from as its source is the behaviour of the
  library loaders, and is assumed of them.
\<close>

lemma ingestion_skips_existing_sources:
  assumes tag: "\<forall>p ds. create_openai_embeddings ld split_documents p = Inr ds \<longrightarrow>
                  (\<forall>d \<in> set ds. source d = Some p)"
    and f: "f \<in> get_existing_sources env store"
  shows "f \<notin> set (new_files env files_dir listing store)
       \<and> filter (\<lambda>d. source d = Some f)
           (records_of (snd (process_all_documents tok env ld split_documents files_dir listing store)))
         = filter (\<lambda>d. source d = Some f) (records_of store)"
proof
  from f show skip: "f \<notin> set (new_files env files_dir listing store)"
    by (simp add: new_files_def)
  from f obtain records where store: "store = Some records"
    by (cases store) (auto simp: get_existing_sources_def)
  from process_all_documents_existing [of tok env ld split_documents files_dir listing records]
  obtain extra where after: "snd (process_all_documents tok env ld split_documents files_dir listing (Some records))
        = Some (records @ extra)"
    and sub: "set extra \<subseteq> set (load_all ld split_documents (new_files env files_dir listing store))"
    unfolding store by blast
  have "source d \<noteq> Some f" if "d \<in> set extra" for d
  proof -
    from that sub have "d \<in> set (load_all ld split_documents (new_files env files_dir listing store))"
      by blast
    then obtain p ds where p: "p \<in> set (new_files env files_dir listing store)"
      and ds: "create_openai_embeddings ld split_documents p = Inr ds" and d: "d \<in> set ds"
      using load_all_origin by blast
    from tag ds d have "source d = Some p" by blast
    moreover from p skip have "p \<noteq> f" by blast
    ultimately show ?thesis by simp
  qed
  then have "filter (\<lambda>d. source d = Some f) extra = []"
    by (simp add: filter_empty_conv)
  then show "filter (\<lambda>d. source d = Some f)
           (records_of (snd (process_all_documents tok env ld split_documents files_dir listing store)))
         = filter (\<lambda>d. source d = Some f) (records_of store)"
    by (simp add: store after records_of_def)
qed

lemma tagging_loaders_tag:
  "\<forall>p ds. create_openai_embeddings tagging_loaders no_split p = Inr ds \<longrightarrow>
                  (\<forall>d \<in> set ds. source d = Some p)"
  by (auto simp: create_openai_embeddings_def tagging_loaders_def no_split_def split: if_splits)

lemma recorded_source_is_existing:
  assumes "sources_open env = None" and "d \<in> set (records_of store)" and "source d = Some f"
  shows "f \<in> get_existing_sources env store"
proof -
  from assms(2) obtain records where store: "store = Some records" and d: "d \<in> set records"
    by (cases store) (auto simp: records_of_def)
  from d assms(3) have "f \<in> set (List.map_filter source records)"
    by (force simp: List.map_filter_def)
  with assms(1) store show ?thesis
    by (simp add: get_existing_sources_def)
qed

text \<open>
  Claim C8, as stated, fails: a first run ingests \<open>docs/a.pdf\<close> into a new collection;
  on the second run the look-up of the existing sources raises, so that
  \<open>get_existing_sources\<close> returns the empty set, the file is loaded again and the
  collection then holds two records of that source.
\<close>

theorem ingestion_twice_duplicates_counterexample:
  "process_all_documents length chroma_all_ok tagging_loaders no_split ''docs'' (Some [''a.pdf'']) None
     = (Db, Some [a_chunk])
   \<and> process_all_documents length chroma_lookup_fails tagging_loaders no_split ''docs'' (Some [''a.pdf''])
       (snd (process_all_documents length chroma_all_ok tagging_loaders no_split ''docs'' (Some [''a.pdf'']) None))
     = (Db, Some [a_chunk, a_chunk])"
  by (simp add: process_all_documents_def get_supported_files_def endswith_def new_files_def
        get_existing_sources_def create_openai_embeddings_def tagging_loaders_def no_split_def
        create_or_update_vector_store_def chroma_all_ok_def chroma_lookup_fails_def a_chunk_def
        create_batches_def batch_step_def)

text \<open>
  Claim C8, amended. When a source has a record in the collection after a run of
  \<open>process_all_documents\<close>, and the look-up of the existing sources succeeds on the
  next run, the next run does not load the file of that source and leaves the records
  of that source exactly as they were: no record of it is added a second time. (When
  the look-up fails, \<open>get_existing_sources\<close> returns the empty set and nothing is
  skipped.)
\<close>

theorem second_run_adds_no_duplicates:
  assumes tag: "\<forall>p ds. create_openai_embeddings ld split_documents p = Inr ds \<longrightarrow>
                  (\<forall>d \<in> set ds. source d = Some p)"
    and lookup: "sources_open env_second = None"
    and first: "store_between = snd (process_all_documents tok env_first ld split_documents files_dir listing_first store_before)"
    and d: "d \<in> set (records_of store_between)" and f: "source d = Some f"
  shows "f \<notin> set (new_files env_second files_dir listing_second store_between)
       \<and> filter (\<lambda>r. source r = Some f)
           (records_of (snd (process_all_documents tok env_second ld split_documents files_dir listing_second store_between)))
         = filter (\<lambda>r. source r = Some f) (records_of store_between)"
proof -
  from lookup d f have "f \<in> get_existing_sources env_second store_between"
    by (rule recorded_source_is_existing)
  with tag show ?thesis
    by (rule ingestion_skips_existing_sources)
qed

theorem second_run_adds_no_duplicates_witness:
  "''docs/a.pdf'' \<notin> set (new_files chroma_all_ok ''docs'' (Some [''a.pdf'']) (Some [a_chunk]))
   \<and> filter (\<lambda>r. source r = Some ''docs/a.pdf'')
        (records_of (snd (process_all_documents length chroma_all_ok tagging_loaders no_split ''docs''
           (Some [''a.pdf'']) (Some [a_chunk]))))
      = [a_chunk]"
proof -
  have first: "Some [a_chunk] =
      snd (process_all_documents length chroma_all_ok tagging_loaders no_split ''docs'' (Some [''a.pdf'']) None)"
    by (simp add: process_all_documents_def get_supported_files_def endswith_def new_files_def
        get_existing_sources_def create_openai_embeddings_def tagging_loaders_def no_split_def
        create_or_update_vector_store_def chroma_all_ok_def a_chunk_def)
  have lookup: "sources_open chroma_all_ok = None"
    by (simp add: chroma_all_ok_def)
  have d: "a_chunk \<in> set (records_of (Some [a_chunk]))"
    by (simp add: records_of_def)
  have f: "source a_chunk = Some ''docs/a.pdf''"
    by (simp add: a_chunk_def)
  have r: "filter (\<lambda>r. source r = Some ''docs/a.pdf'') (records_of (Some [a_chunk])) = [a_chunk]"
    by (simp add: records_of_def a_chunk_def)
  from second_run_adds_no_duplicates [OF tagging_loaders_tag lookup first d f, where listing_second = "Some [''a.pdf'']"]
  show ?thesis unfolding r .
qed

section \<open>Properties of the document loaders\<close>

text \<open>
  Claim C9, as stated, fails: \<open>process_document\<close> hands a path with the unrecognised
  extension \<open>.exe\<close> to the text loader and returns its documents, and
  \<open>create_openai_embeddings\<close> rejects the plain-text path \<open>notes.txt\<close>.
\<close>

theorem loader_unsupported_format_counterexample:
  "process_document tagging_loaders ''report.exe'' =
     (Inr [\<lparr>page_content = ''text'', source = Some ''report.exe''\<rparr>], [])
   \<and> create_openai_embeddings tagging_loaders no_split ''notes.txt'' =
       Inl (ValueError ''Unsupported file type: notes.txt'')"
  by (simp add: process_document_def process_document_loader_def tagging_loaders_def
        create_openai_embeddings_def endswith_def)

text \<open>
  Claim C9, amended. The loader of the ingestion script, \<open>create_openai_embeddings\<close>,
  recognises paths ending in \<open>.docx\<close> or \<open>.pdf\<close> only: for every other path it fails
  with the error "Unsupported file type: path", and for a recognised path it returns the
  split documents of the matching library loader, or that loader's error. The loader of
  the pages, \<open>process_document\<close>, never fails: with the suffix compared in lower case,
  it uses the PDF loader for \<open>.pdf\<close>, the CSV loader for \<open>.csv\<close>, the Excel loader for
  \<open>.xlsx\<close> and the text loader for every other suffix, and returns the documents of
  that loader, or the empty list when that loader raises.
\<close>

theorem loaders_by_extension:
  "(\<not> endswith p ''.docx'' \<and> \<not> endswith p ''.pdf'' \<longrightarrow>
      create_openai_embeddings ld split_documents p = Inl (ValueError (''Unsupported file type: '' @ p)))
   \<and> (endswith p ''.docx'' \<or> endswith p ''.pdf'' \<longrightarrow>
      create_openai_embeddings ld split_documents p =
        (case ld (if endswith p ''.docx'' then Docx2txtLoader else PyPDFLoader) p of
           Inl e \<Rightarrow> Inl e
         | Inr documents \<Rightarrow> Inr (split_documents documents)))
   \<and> (lower (path_suffix p) = ''.pdf'' \<longrightarrow>
      fst (process_document ld p) = Inr (case ld PyPDFLoader p of Inl e \<Rightarrow> [] | Inr documents \<Rightarrow> documents))
   \<and> (lower (path_suffix p) = ''.csv'' \<longrightarrow>
      fst (process_document ld p) = Inr (case ld CSVLoader p of Inl e \<Rightarrow> [] | Inr documents \<Rightarrow> documents))
   \<and> (lower (path_suffix p) = ''.xlsx'' \<longrightarrow>
      fst (process_document ld p) =
        Inr (case ld UnstructuredExcelLoader p of Inl e \<Rightarrow> [] | Inr documents \<Rightarrow> documents))
   \<and> (lower (path_suffix p) \<notin> {''.pdf'', ''.csv'', ''.xlsx''} \<longrightarrow>
      fst (process_document ld p) = Inr (case ld TextLoader p of Inl e \<Rightarrow> [] | Inr documents \<Rightarrow> documents))"
  by (auto simp: create_openai_embeddings_def process_document_def process_document_loader_def
        split: sum.splits)

theorem loaders_by_extension_witness:
  "create_openai_embeddings kind_loaders no_split ''tool.exe'' =
     Inl (ValueError ''Unsupported file type: tool.exe'')
   \<and> create_openai_embeddings kind_loaders no_split ''docs/a.pdf'' =
     Inr [\<lparr>page_content = ''pdf pages'', source = Some ''docs/a.pdf''\<rparr>]
   \<and> fst (process_document kind_loaders ''docs/a.pdf'') =
     Inr [\<lparr>page_content = ''pdf pages'', source = Some ''docs/a.pdf''\<rparr>]
   \<and> fst (process_document kind_loaders ''T.CSV'') =
     Inr [\<lparr>page_content = ''csv rows'', source = Some ''T.CSV''\<rparr>]
   \<and> fst (process_document kind_loaders ''s.xlsx'') =
     Inr [\<lparr>page_content = ''excel sheets'', source = Some ''s.xlsx''\<rparr>]
   \<and> fst (process_document kind_loaders ''tool.exe'') =
     Inr [\<lparr>page_content = ''plain text'', source = Some ''tool.exe''\<rparr>]"
proof -
  have exe: "\<not> endswith ''tool.exe'' ''.docx'' \<and> \<not> endswith ''tool.exe'' ''.pdf''"
    by (simp add: endswith_def)
  have pdf: "endswith ''docs/a.pdf'' ''.docx'' \<or> endswith ''docs/a.pdf'' ''.pdf''"
    and not_docx: "\<not> endswith ''docs/a.pdf'' ''.docx''"
    by (simp_all add: endswith_def)
  have s_pdf: "lower (path_suffix ''docs/a.pdf'') = ''.pdf''"
    by (simp add: path_suffix_def path_name_def lower_def lower_char_def)
  have s_csv: "lower (path_suffix ''T.CSV'') = ''.csv''"
    by (simp add: path_suffix_def path_name_def lower_def lower_char_def)
  have s_xlsx: "lower (path_suffix ''s.xlsx'') = ''.xlsx''"
    by (simp add: path_suffix_def path_name_def lower_def lower_char_def)
  have s_exe: "lower (path_suffix ''tool.exe'') \<notin> {''.pdf'', ''.csv'', ''.xlsx''}"
    by (simp add: path_suffix_def path_name_def lower_def lower_char_def)
  from loaders_by_extension [of "''tool.exe''" kind_loaders no_split] exe s_exe
  have "create_openai_embeddings kind_loaders no_split ''tool.exe'' =
          Inl (ValueError (''Unsupported file type: '' @ ''tool.exe''))"
    and "fst (process_document kind_loaders ''tool.exe'') =
          Inr (case kind_loaders TextLoader ''tool.exe'' of Inl e \<Rightarrow> [] | Inr documents \<Rightarrow> documents)"
    by blast+
  moreover from loaders_by_extension [of "''docs/a.pdf''" kind_loaders no_split] pdf s_pdf
  have "create_openai_embeddings kind_loaders no_split ''docs/a.pdf'' =
          (case kind_loaders (if endswith ''docs/a.pdf'' ''.docx'' then Docx2txtLoader else PyPDFLoader)
                  ''docs/a.pdf'' of
             Inl e \<Rightarrow> Inl e
           | Inr documents \<Rightarrow> Inr (no_split documents))"
    and "fst (process_document kind_loaders ''docs/a.pdf'') =
          Inr (case kind_loaders PyPDFLoader ''docs/a.pdf'' of Inl e \<Rightarrow> [] | Inr documents \<Rightarrow> documents)"
    by blast+
  moreover from loaders_by_extension [of "''T.CSV''" kind_loaders no_split] s_csv
  have "fst (process_document kind_loaders ''T.CSV'') =
          Inr (case kind_loaders CSVLoader ''T.CSV'' of Inl e \<Rightarrow> [] | Inr documents \<Rightarrow> documents)"
    by blast
  moreover from loaders_by_extension [of "''s.xlsx''" kind_loaders no_split] s_xlsx
  have "fst (process_document kind_loaders ''s.xlsx'') =
          Inr (case kind_loaders UnstructuredExcelLoader ''s.xlsx'' of
                 Inl e \<Rightarrow> [] | Inr documents \<Rightarrow> documents)"
    by blast
  ultimately show ?thesis
    using not_docx by (simp add: kind_loaders_def no_split_def)
qed

section \<open>Properties of the upload endpoint\<close>

text \<open>
  The parts of the behaviour that hold for every request: a file with an unsupported
  extension is skipped and the loop goes on, an oversized file raises inside the loop
  and ends it, and the endpoint never answers with status 413.
\<close>

lemma upload_never_413:
  "fst (upload_corporate_documents index MAX_FILE_SIZE fmt_mb category files) \<noteq> HTTPError 413 detail"
  by (simp add: upload_corporate_documents_def split: prod.splits option.splits)

lemma upload_loop_skips_unsupported:
  "\<not> too_large MAX_FILE_SIZE file \<Longrightarrow>
   lower (path_suffix (filename file)) \<notin> set allowed_extensions \<Longrightarrow>
   upload_loop index MAX_FILE_SIZE fmt_mb category (file # rest) st =
     upload_loop index MAX_FILE_SIZE fmt_mb category rest (st\<lparr>skipped := skipped st @ [filename file]\<rparr>)"
  by (simp add: Let_def)

lemma upload_loop_aborts_on_oversize:
  "too_large MAX_FILE_SIZE file \<Longrightarrow>
   upload_loop index MAX_FILE_SIZE fmt_mb category (file # rest) st =
     (st, Some (HTTPException 413
        (''File '' @ filename file @ '' exceeds maximum size of '' @ fmt_mb MAX_FILE_SIZE @ ''MB'')))"
  by simp

text \<open>
  Claim C10. The claim asks for an HTTP 413 answer when a file exceeds
  \<open>MAX_FILE_SIZE\<close>. In a request for category \<open>rag\<close> with a small text file, an
  unsupported file, an oversized file and one more file, the unsupported file is skipped,
  the first file is saved and indexed and the last is not reached, as the claim says;
  but the 413 exception raised in the loop is caught by the enclosing handler of the
  endpoint and the answer is status 500 with the 413 text inside its detail.
\<close>

theorem upload_oversize_answers_500:
  "upload_corporate_documents index_three 10485760 fmt_ten ''rag''
      [small_file, unsupported_file, oversized_file, later_file] =
     (HTTPError 500 ''Processing error: 413: File b.pdf exceeds maximum size of 10.0MB'',
      \<lparr>processed_files = [\<lparr>pf_filename = ''a.txt'', pf_size = 10, pf_chunks = 3, pf_type = ''.txt''\<rparr>],
       total_chunks = 3, written = [''rag_docs/a.txt''], skipped = [''tool.exe'']\<rparr>)"
  by (simp add: upload_corporate_documents_def upload_start_def small_file_def unsupported_file_def
        oversized_file_def later_file_def index_three_def fmt_ten_def too_large_def
        path_suffix_def path_name_def lower_def lower_char_def allowed_extensions_def
        os_path_join_def digit_char_def Let_def)

end
